theory Spec2Isabelle
  imports Complex_Main "HOL-Library.Char_ord" "HOL-Library.List_Lexorder" "HOL-Library.Multiset"
begin

section \<open>Reporting modules of bzt: FinalStatus and JUnitXMLReporter\<close>

text \<open>
  A shallow embedding of \<^verbatim>\<open>bzt/modules/reporting.py\<close>. Python strings are
  \<open>string\<close>, ordered lexicographically by character code as Python orders them;
  Python ints are \<open>int\<close>; a float is the rational number it denotes, and the one
  division of floats is exact; a dict is the list of its items in iteration order, with
  pairwise distinct keys.
\<close>

subsection \<open>Exceptions, log records and effects\<close>

datatype pyerr =
    ZeroDivisionError
  | KeyError
  | TypeError
  | ValueError string
  | OSError string

datatype level = INFO | WARNING | ERROR

text \<open>
  An argument of a logging call. \<open>Timedelta a b\<close> is the difference
  \<^verbatim>\<open>datetime.fromtimestamp(b) - datetime.fromtimestamp(a)\<close>.
\<close>

datatype arg = S string | I int | F rat | Timedelta int int

text \<open>
  What a method does to the outside: a record handed to the logger (level, format
  string, arguments, as the logging call receives them), a directory created, a document
  written to a file.
\<close>

datatype element =
  Element (tag: string) (attrib: "(string \<times> string) list") (etext: "string option")
    (children: "element list")

datatype event =
    Log level string "arg list"
  | Makedirs string
  | Write_file string element

text \<open>A method yields the events it caused, then raises (\<open>Inl\<close>) or returns.\<close>

type_synonym 'a result = "event list \<times> (pyerr + 'a)"

definition then_do :: "'a result \<Rightarrow> ('a \<Rightarrow> 'b result) \<Rightarrow> 'b result" where
  "then_do m f =
     (case m of
        (evs, Inl e) \<Rightarrow> (evs, Inl e)
      | (evs, Inr x) \<Rightarrow> (case f x of (evs', r) \<Rightarrow> (evs @ evs', r)))"

definition skip :: "unit result" where
  "skip = ([], Inr ())"

subsection \<open>The aggregator's data\<close>

text \<open>One item of \<^verbatim>\<open>KPISet.ERRORS\<close>: the keys rc, msg, cnt and urls.\<close>

record error_item =
  rc :: string
  msg :: string
  cnt :: int
  urls :: "(string \<times> int) list"

text \<open>
  A \<^verbatim>\<open>KPISet\<close>, with the fields this module reads: SUCCESSES, SAMPLE_COUNT,
  FAILURES, AVG_RESP_TIME, AVG_LATENCY, AVG_CONN_TIME, PERCENTILES, ERRORS.
\<close>

record kpiset =
  successes :: int
  sample_count :: int
  failures :: int
  avg_resp_time :: rat
  avg_latency :: rat
  avg_conn_time :: rat
  percentiles :: "(string \<times> rat) list"
  errors :: "error_item list"

text \<open>
  A \<^verbatim>\<open>DataPoint\<close>: only \<^verbatim>\<open>DataPoint.CUMULATIVE\<close> is read, a dict from
  label to KPISet. A DataPoint is never an empty dict, so as a condition it is true.
\<close>

record datapoint =
  cumulative :: "(string \<times> kpiset) list"

subsection \<open>Conversions of the interpreter\<close>

definition digit_char :: "nat \<Rightarrow> char" where
  "digit_char d = ''0123456789'' ! d"

fun str_nat :: "nat \<Rightarrow> string" where
  "str_nat n = (if n < 10 then [digit_char n] else str_nat (n div 10) @ [digit_char (n mod 10)])"

declare str_nat.simps [simp del]

text \<open>\<^verbatim>\<open>str\<close> of an int.\<close>

definition str_int :: "int \<Rightarrow> string" where
  "str_int i = (if i < 0 then CHR ''-'' # str_nat (nat (- i)) else str_nat (nat i))"

text \<open>\<^verbatim>\<open>int\<close> of a float: truncation towards zero.\<close>

definition py_int :: "rat \<Rightarrow> int" where
  "py_int x = (if 0 \<le> x then \<lfloor>x\<rfloor> else \<lceil>x\<rceil>)"

text \<open>
  \<^verbatim>\<open>float\<close> of a string is a parameter \<open>flt\<close> of the functions that call it:
  \<open>None\<close> where it raises ValueError, else the number the float denotes.
\<close>

subsection \<open>FinalStatus\<close>

text \<open>
  The reporter's attributes, and the truth values of its parameters
  \<^verbatim>\<open>test-duration\<close>, \<^verbatim>\<open>summary\<close>, \<^verbatim>\<open>percentiles\<close> and
  \<^verbatim>\<open>failed-labels\<close> (with their defaults applied).
\<close>

record final_status =
  last_sec :: "datapoint option"
  start_time :: rat
  end_time :: "rat option"
  param_test_duration :: bool
  param_summary :: bool
  param_percentiles :: bool
  param_failed_labels :: bool

definition FinalStatus_aggregated_second :: "datapoint \<Rightarrow> final_status \<Rightarrow> final_status" where
  "FinalStatus_aggregated_second data s = s\<lparr>last_sec := Some data\<rparr>"

definition report_samples_count :: "kpiset \<Rightarrow> unit result" where
  "report_samples_count summary_kpi_set =
     (if rat_of_int (sample_count summary_kpi_set) = 0 then ([], Inl ZeroDivisionError)
      else
        (let err_rate = 100 * rat_of_int (failures summary_kpi_set)
                          / rat_of_int (sample_count summary_kpi_set)
         in ([Log INFO ''Samples count: %s, %.2f%% failures''
                [I (sample_count summary_kpi_set), F err_rate]], Inr ())))"

text \<open>
  The keys of the percentiles with their float, as \<^verbatim>\<open>sorted(..., key=float)\<close>
  computes them before it sorts: ValueError at the first key that is no number.
\<close>

fun float_keys :: "(string \<Rightarrow> rat option) \<Rightarrow> string list \<Rightarrow> pyerr + (rat \<times> string) list" where
  "float_keys flt [] = Inr []"
| "float_keys flt (key # keys) =
     (case flt key of
        None \<Rightarrow> Inl (ValueError key)
      | Some x \<Rightarrow>
          (case float_keys flt keys of
             Inl e \<Rightarrow> Inl e
           | Inr xs \<Rightarrow> Inr ((x, key) # xs)))"

fun percentile_lines :: "(string \<times> rat) list \<Rightarrow> (rat \<times> string) list \<Rightarrow> unit result" where
  "percentile_lines perc [] = skip"
| "percentile_lines perc ((x, key) # rest) =
     (case map_of perc key of
        None \<Rightarrow> ([], Inl KeyError)
      | Some v \<Rightarrow>
          then_do ([Log INFO ''Percentile %.1f%%: %.3f'' [F x, F v]], Inr ())
            (\<lambda>_. percentile_lines perc rest))"

definition report_percentiles :: "(string \<Rightarrow> rat option) \<Rightarrow> kpiset \<Rightarrow> unit result" where
  "report_percentiles flt summary_kpi_set =
     then_do
       ([Log INFO ''Average times: total %.3f, latency %.3f, connect %.3f''
           [F (avg_resp_time summary_kpi_set), F (avg_latency summary_kpi_set),
            F (avg_conn_time summary_kpi_set)]], Inr ())
       (\<lambda>_. case float_keys flt (map fst (percentiles summary_kpi_set)) of
               Inl e \<Rightarrow> ([], Inl e)
             | Inr ks \<Rightarrow> percentile_lines (percentiles summary_kpi_set) (sort_key fst ks))"

fun failed_labels_loop :: "(string \<times> kpiset) list \<Rightarrow> string list \<Rightarrow> unit result" where
  "failed_labels_loop cum [] = skip"
| "failed_labels_loop cum (sample_label # rest) =
     (if sample_label \<noteq> ''''
      then (case map_of cum sample_label of
              None \<Rightarrow> ([], Inl KeyError)
            | Some k \<Rightarrow>
                then_do
                  (if failures k \<noteq> 0
                   then ([Log INFO ''%d failed samples: %s'' [I (failures k), S sample_label]],
                         Inr ())
                   else skip)
                  (\<lambda>_. failed_labels_loop cum rest))
      else failed_labels_loop cum rest)"

definition report_failed_labels :: "(string \<times> kpiset) list \<Rightarrow> unit result" where
  "report_failed_labels cum = failed_labels_loop cum (sort (map fst cum))"

definition report_duration :: "rat \<Rightarrow> rat \<Rightarrow> unit result" where
  "report_duration start end =
     ([Log INFO ''Test duration: %s'' [Timedelta (py_int start) (py_int end)]], Inr ())"

text \<open>
  \<^verbatim>\<open>post_process\<close> of FinalStatus; \<open>now\<close> is what \<^verbatim>\<open>time.time()\<close> returns.
  The post_process of the base class does nothing.
\<close>

definition FinalStatus_post_process ::
  "(string \<Rightarrow> rat option) \<Rightarrow> rat \<Rightarrow> final_status \<Rightarrow> final_status result" where
  "FinalStatus_post_process flt now s =
     (let s' = s\<lparr>end_time := Some now\<rparr> in
      then_do (if param_test_duration s' then report_duration (start_time s') now else skip)
        (\<lambda>_. case last_sec s' of
                None \<Rightarrow> ([], Inr s')
              | Some dp \<Rightarrow>
                  (case map_of (cumulative dp) '''' of
                     None \<Rightarrow> ([], Inl KeyError)
                   | Some summary_kpi \<Rightarrow>
                       then_do (if param_summary s' then report_samples_count summary_kpi
                                else skip)
                         (\<lambda>_. then_do (if param_percentiles s'
                                        then report_percentiles flt summary_kpi else skip)
                            (\<lambda>_. then_do (if param_failed_labels s'
                                           then report_failed_labels (cumulative dp) else skip)
                               (\<lambda>_. ([], Inr s')))))))"

text \<open>A KPISet with no samples, and the status that has received it.\<close>

definition empty_kpiset :: kpiset where
  "empty_kpiset =
     \<lparr>successes = 0, sample_count = 0, failures = 0, avg_resp_time = 0, avg_latency = 0,
      avg_conn_time = 0, percentiles = [], errors = []\<rparr>"

definition default_status :: final_status where
  "default_status =
     \<lparr>last_sec = None, start_time = 0, end_time = None, param_test_duration = True,
      param_summary = True, param_percentiles = True, param_failed_labels = False\<rparr>"

subsection \<open>JUnitXMLReporter\<close>

text \<open>
  A BlazeMeterUploader found among the engine's reporters: \<^verbatim>\<open>client.results_url\<close>,
  \<^verbatim>\<open>client.test_id\<close> and \<^verbatim>\<open>parameters.get("test", None)\<close>.
\<close>

record bza_reporter =
  results_url :: "string option"
  test_id :: "string option"
  test_param :: "string option"

text \<open>
  A criterion of a PassFailStatus: the entries subject, label, condition, threshold and
  timeframe of its config, and its attributes \<^verbatim>\<open>is_triggered\<close> and
  \<^verbatim>\<open>fail\<close>.
\<close>

record criterion =
  subject :: string
  label :: string
  condition :: string
  threshold :: string
  timeframe :: "string option"
  is_triggered :: bool
  fail :: bool

text \<open>
  The reporter: its attributes, \<^verbatim>\<open>settings.get("max-urls")\<close>, its parameters
  \<^verbatim>\<open>filename\<close> and \<^verbatim>\<open>data-source\<close>, and of the engine's reporters the
  BlazeMeterUploaders and the criteria of each PassFailStatus, in the engine's order.
  \<open>python3\<close> tells the interpreter: comparing an int with None raises TypeError under
  Python 3, and under Python 2 every int is greater than None. \<open>xml_valid\<close> is the test
  of lxml on a string given as attribute value or as text: where it fails, lxml raises
  ValueError. Which strings pass depends on the version of lxml and on the interpreter.
\<close>

record junit_reporter =
  report_file_path :: string
  last_second :: "datapoint option"
  max_urls :: int
  settings_max_urls :: "int option"
  param_filename :: "string option"
  param_data_source :: "string option"
  bza_reporters :: "bza_reporter list"
  passfail_reporters :: "criterion list list"
  python3 :: bool
  xml_valid :: "string \<Rightarrow> bool"

text \<open>The truth value of a value that is None or a string.\<close>

definition truthy :: "string option \<Rightarrow> bool" where
  "truthy v = (case v of None \<Rightarrow> False | Some s \<Rightarrow> s \<noteq> '''')"

text \<open>\<^verbatim>\<open>"%s" % v\<close> for such a value.\<close>

definition str_opt :: "string option \<Rightarrow> string" where
  "str_opt v = (case v of None \<Rightarrow> ''None'' | Some s \<Rightarrow> s)"

text \<open>
  A value handed to lxml as attribute value or as text: lxml raises TypeError for None
  and ValueError for a string that fails its test \<open>ok\<close>. The literal strings of the
  source pass it, and are not tested here.
\<close>

definition lxml_string :: "(string \<Rightarrow> bool) \<Rightarrow> string option \<Rightarrow> pyerr + string" where
  "lxml_string ok v =
     (case v of
        None \<Rightarrow> Inl TypeError
      | Some s \<Rightarrow>
          if ok s then Inr s
          else Inl (ValueError
                 (''All strings must be XML compatible: Unicode or ASCII, ''
                  @ ''no NULL bytes or control characters'')))"

text \<open>\<^verbatim>\<open>etree.Element(tag, **attrs)\<close> with attributes that are not literals.\<close>

fun attrs_of ::
  "(string \<Rightarrow> bool) \<Rightarrow> (string \<times> string option) list \<Rightarrow> pyerr + (string \<times> string) list" where
  "attrs_of ok [] = Inr []"
| "attrs_of ok ((k, v) # rest) =
     (case lxml_string ok v of
        Inl e \<Rightarrow> Inl e
      | Inr s \<Rightarrow> (case attrs_of ok rest of Inl e \<Rightarrow> Inl e | Inr as \<Rightarrow> Inr ((k, s) # as)))"

definition etree_Element ::
  "(string \<Rightarrow> bool) \<Rightarrow> string \<Rightarrow> (string \<times> string option) list \<Rightarrow> pyerr + element" where
  "etree_Element ok t attrs =
     (case attrs_of ok attrs of Inl e \<Rightarrow> Inl e | Inr as \<Rightarrow> Inr (Element t as None []))"

text \<open>The assignment \<^verbatim>\<open>element.text = s\<close>.\<close>

definition set_text :: "(string \<Rightarrow> bool) \<Rightarrow> element \<Rightarrow> string \<Rightarrow> pyerr + element" where
  "set_text ok e s =
     (case lxml_string ok (Some s) of
        Inl err \<Rightarrow> Inl err
      | Inr t \<Rightarrow> Inr (Element (tag e) (attrib e) (Some t) (children e)))"

text \<open>
  The test of lxml on an ASCII string: no NUL and no control character other than tab,
  newline and carriage return.
\<close>

definition xml_compatible :: "string \<Rightarrow> bool" where
  "xml_compatible s =
     list_all (\<lambda>c. CHR 0x20 \<le> c \<or> c = CHR 0x09 \<or> c = CHR 0x0A \<or> c = CHR 0x0D) s"

definition append_child :: "element \<Rightarrow> element \<Rightarrow> element" where
  "append_child parent child =
     Element (tag parent) (attrib parent) (etext parent) (children parent @ [child])"

definition get_attr :: "element \<Rightarrow> string \<Rightarrow> string option" where
  "get_attr e k = map_of (attrib e) k"

text \<open>
  \<open>create_artifact\<close> is the engine's method of that name, called with the file's
  name and extension.
\<close>

definition prepare ::
  "(string \<Rightarrow> string \<Rightarrow> string) \<Rightarrow> junit_reporter \<Rightarrow> event list \<times> junit_reporter" where
  "prepare create_artifact r =
     (let (evs, r1) =
            (if max_urls r > 50
             then ([Log WARNING ''Limiting urls count in summary report to 50'' []],
                   r\<lparr>max_urls := 50\<rparr>)
             else ([], r));
          r2 = (if truthy (param_filename r1)
                then r1\<lparr>report_file_path := str_opt (param_filename r1)\<rparr>
                else r1\<lparr>report_file_path := create_artifact ''xunit'' ''.xml''\<rparr>)
      in (evs, r2\<lparr>param_filename := Some (report_file_path r2)\<rparr>))"

definition JUnitXMLReporter_aggregated_second ::
  "datapoint \<Rightarrow> junit_reporter \<Rightarrow> junit_reporter" where
  "JUnitXMLReporter_aggregated_second data r = r\<lparr>last_second := Some data\<rparr>"

definition count_errors :: "kpiset \<Rightarrow> int" where
  "count_errors summary_kpi_set =
     fold (\<lambda>error err_counter.
             fold (\<lambda>(url, err_count) c. c + err_count) (urls error) err_counter)
       (errors summary_kpi_set) 0"

definition bza_info :: "bza_reporter \<Rightarrow> string option \<times> string option" where
  "bza_info b =
     (if truthy (results_url b)
      then Some (''BlazeMeter report link: '' @ str_opt (results_url b) @ ''\<newline>'')
      else None,
      if truthy (test_id b) then test_param b else None)"

definition get_bza_report_info ::
  "junit_reporter \<Rightarrow> event list \<times> (string option \<times> string option) list" where
  "get_bza_report_info r =
     (let result = fold (\<lambda>b res. res @ [bza_info b]) (bza_reporters r) [] in
      (if length result > 1
       then [Log WARNING ''More then one blazemeter reporter found'' []] else [],
       result))"

definition err_line :: "error_item \<Rightarrow> string" where
  "err_line error =
     ''Error code: '' @ rc error @ '', Message: '' @ msg error @ '', count: ''
       @ str_int (cnt error) @ ''\<newline>''"

definition url_line :: "string \<times> int \<Rightarrow> string" where
  "url_line u = ''URL: '' @ fst u @ '', Error count '' @ str_int (snd u) @ ''\<newline>''"

text \<open>
  The loop of \<^verbatim>\<open>get_urls_errors\<close> over \<^verbatim>\<open>enumerate(errors)\<close>; \<open>cap\<close> is
  \<^verbatim>\<open>self.settings.get("max-urls")\<close> and \<open>out\<close> what has been written.
\<close>

fun urls_errors_loop ::
  "bool \<Rightarrow> int option \<Rightarrow> (nat \<times> error_item) list \<Rightarrow> string \<Rightarrow> pyerr + string" where
  "urls_errors_loop py3 cap [] out = Inr out"
| "urls_errors_loop py3 cap ((count', error) # rest) out =
     (case cap of
        None \<Rightarrow> if py3 then Inl TypeError else Inr out
      | Some m \<Rightarrow>
          if int count' > m then Inr out
          else urls_errors_loop py3 cap rest
                 (fold (\<lambda>u w. w @ url_line u) (urls error) (out @ err_line error)))"

definition get_urls_errors :: "junit_reporter \<Rightarrow> kpiset \<Rightarrow> pyerr + string" where
  "get_urls_errors r summary_kpi_set =
     urls_errors_loop (python3 r) (settings_max_urls r)
       (enumerate 0 (errors summary_kpi_set)) ''''"

definition make_summary_report ::
  "junit_reporter \<Rightarrow> kpiset \<Rightarrow> string option list \<Rightarrow> pyerr + element" where
  "make_summary_report r summary_kpiset report_urls =
     (let succ = str_int (successes summary_kpiset);
          throughput = str_int (sample_count summary_kpiset);
          fail = str_int (failures summary_kpiset);
          testcase_element =
            Element ''testcase'' [(''classname'', ''bzt''), (''name'', ''summary_report'')]
              None [];
          testcase_element = append_child testcase_element (Element ''skipped'' [] None []);
          system_out_element = Element ''system-out'' [] None [];
          errors_count = str_int (count_errors summary_kpiset);
          summary_report =
            ''Success: '' @ succ @ '', Sample count: '' @ throughput @ '', Failures: '' @ fail
              @ '', Errors: '' @ errors_count @ ''\<newline>'';
          summary_report =
            fold (\<lambda>report_url s. s @ ''Blazemeter report: '' @ str_opt report_url @ ''\<newline>'')
              report_urls summary_report
      in case get_urls_errors r summary_kpiset of
           Inl e \<Rightarrow> Inl e
         | Inr urls_errors \<Rightarrow>
             (case set_text (xml_valid r) system_out_element (summary_report @ urls_errors) of
                Inl e \<Rightarrow> Inl e
              | Inr system_out_element \<Rightarrow>
                  Inr (append_child testcase_element system_out_element)))"

text \<open>
  The body of the loop of \<^verbatim>\<open>process_sample_labels\<close> over the errors of a
  label, and that loop, appending to the testcase of the label.
\<close>

definition error_element :: "(string \<Rightarrow> bool) \<Rightarrow> error_item \<Rightarrow> pyerr + element" where
  "error_element ok er_dict =
     (let err_message = rc er_dict;
          err_type = msg er_dict;
          err_desc = ''total errors of this type:'' @ str_int (cnt er_dict)
      in case etree_Element ok ''error''
                [(''message'', Some err_message), (''type'', Some err_type)] of
           Inl e \<Rightarrow> Inl e
         | Inr err_etree_element \<Rightarrow> set_text ok err_etree_element err_desc)"

fun errors_loop :: "(string \<Rightarrow> bool) \<Rightarrow> error_item list \<Rightarrow> element \<Rightarrow> pyerr + element" where
  "errors_loop ok [] test_case = Inr test_case"
| "errors_loop ok (er_dict # rest) test_case =
     (case error_element ok er_dict of
        Inl e \<Rightarrow> Inl e
      | Inr err_etree_element \<Rightarrow>
          errors_loop ok rest (append_child test_case err_etree_element))"

text \<open>
  The loop of \<^verbatim>\<open>process_sample_labels\<close> over the sorted labels, appending to
  the root element.
\<close>

fun labels_loop ::
  "(string \<Rightarrow> bool) \<Rightarrow> (string \<times> kpiset) list \<Rightarrow> string option \<Rightarrow> string list \<Rightarrow> element
   \<Rightarrow> pyerr + element" where
  "labels_loop ok kp class_name [] root_element = Inr root_element"
| "labels_loop ok kp class_name (key # keys) root_element =
     (if key = '''' then labels_loop ok kp class_name keys root_element
      else
        (case etree_Element ok ''testcase''
                [(''classname'', class_name), (''name'', Some key)] of
           Inl e \<Rightarrow> Inl e
         | Inr test_case \<Rightarrow>
             (case map_of kp key of
                None \<Rightarrow> Inl KeyError
              | Some k \<Rightarrow>
                  (case (if errors k \<noteq> [] then errors_loop ok (errors k) test_case
                         else Inr test_case) of
                     Inl e \<Rightarrow> Inl e
                   | Inr test_case \<Rightarrow>
                       labels_loop ok kp class_name keys
                         (append_child root_element test_case)))))"

definition process_sample_labels :: "junit_reporter \<Rightarrow> datapoint \<Rightarrow> element result" where
  "process_sample_labels r dp =
     (let kp = cumulative dp in
      case map_of kp '''' of
        None \<Rightarrow> ([], Inl KeyError)
      | Some summary_kpiset \<Rightarrow>
          (let root_xml_element =
                 Element ''testsuite'' [(''name'', ''sample_labels''), (''package'', ''bzt'')]
                   None [];
               (evs, bza_report_info) = get_bza_report_info r;
               class_name = (case bza_report_info of [] \<Rightarrow> Some ''bzt'' | info # _ \<Rightarrow> snd info);
               report_urls = map fst bza_report_info
           in case make_summary_report r summary_kpiset report_urls of
                Inl e \<Rightarrow> (evs, Inl e)
              | Inr summary \<Rightarrow>
                  (evs, labels_loop (xml_valid r) kp class_name (sort (map fst kp))
                          (append_child root_xml_element summary))))"

text \<open>
  \<^verbatim>\<open>tpl % data\<close> for a template whose only conversions are \<^verbatim>\<open>%s\<close>
  and a tuple of strings: \<open>None\<close> is the TypeError for too few or too many
  arguments, or the ValueError for another use of the percent sign.
\<close>

fun percent_format :: "string \<Rightarrow> string list \<Rightarrow> string option" where
  "percent_format [] data = (if data = [] then Some [] else None)"
| "percent_format [c] data =
     (if c = CHR ''%'' \<or> data \<noteq> [] then None else Some [c])"
| "percent_format (c # d # t) data =
     (if c = CHR ''%''
      then (if d = CHR ''s''
            then (case data of
                    [] \<Rightarrow> None
                  | a # rest \<Rightarrow> map_option (\<lambda>s. a @ s) (percent_format t rest))
            else None)
      else map_option (\<lambda>s. c # s) (percent_format (d # t) data))"

text \<open>The body of the loop of \<^verbatim>\<open>process_pass_fail\<close> over the criteria.\<close>

definition pass_fail_testcase ::
  "(string \<Rightarrow> bool) \<Rightarrow> string \<Rightarrow> criterion \<Rightarrow> pyerr + element" where
  "pass_fail_testcase ok classname fc_obj =
     (let (data, tpl) =
            (if label fc_obj \<noteq> ''''
             then ([subject fc_obj, label fc_obj, condition fc_obj, threshold fc_obj],
                   ''%s of %s%s%s'')
             else ([subject fc_obj, condition fc_obj, threshold fc_obj], ''%s%s%s''));
          (data, tpl) =
            (if truthy (timeframe fc_obj)
             then (data @ [str_opt (timeframe fc_obj)], tpl @ '' for %s'')
             else (data, tpl))
      in case percent_format tpl data of
           None \<Rightarrow> Inl TypeError
         | Some disp_name \<Rightarrow>
             (case etree_Element ok ''testcase''
                     [(''classname'', Some classname), (''name'', Some disp_name)] of
                Inl e \<Rightarrow> Inl e
              | Inr testcase_etree \<Rightarrow>
                  Inr (if is_triggered fc_obj \<and> fail fc_obj
                       then append_child testcase_etree
                              (Element ''error''
                                 [(''type'', ''pass/fail criteria triggered''),
                                  (''message'', '''')]
                                 None [])
                       else testcase_etree)))"

fun pass_fail_loop ::
  "(string \<Rightarrow> bool) \<Rightarrow> string \<Rightarrow> criterion list \<Rightarrow> element \<Rightarrow> pyerr + element" where
  "pass_fail_loop ok classname [] root_element = Inr root_element"
| "pass_fail_loop ok classname (fc_obj # rest) root_element =
     (case pass_fail_testcase ok classname fc_obj of
        Inl e \<Rightarrow> Inl e
      | Inr testcase_etree \<Rightarrow>
          pass_fail_loop ok classname rest (append_child root_element testcase_etree))"

definition process_pass_fail :: "junit_reporter \<Rightarrow> element result" where
  "process_pass_fail r =
     (let fail_criterias =
            fold (\<lambda>criterias acc.
                    if criterias \<noteq> [] then fold (\<lambda>fc a. a @ [fc]) criterias acc else acc)
              (passfail_reporters r) [];
          root_xml_element =
            Element ''testsuite'' [(''name'', ''bzt_pass_fail''), (''package'', ''bzt'')] None [];
          (evs, bza_report_info) = get_bza_report_info r;
          test_name = (case bza_report_info of [] \<Rightarrow> None | info # _ \<Rightarrow> snd info);
          classname = (if truthy test_name then str_opt test_name else ''bzt'')
      in (evs, pass_fail_loop (xml_valid r) classname fail_criterias root_xml_element))"

text \<open>
  The operating system as \<^verbatim>\<open>save_report\<close> meets it: whether a path exists, and
  the exception, if any, that \<^verbatim>\<open>os.makedirs\<close> raises for a directory and that
  opening and writing a file raises.
\<close>

record os_env =
  path_exists :: "string \<Rightarrow> bool"
  makedirs_error :: "string \<Rightarrow> pyerr option"
  write_error :: "string \<Rightarrow> pyerr option"

text \<open>\<^verbatim>\<open>os.path.dirname\<close> of posixpath.\<close>

definition dirname :: "string \<Rightarrow> string" where
  "dirname p =
     (let head = rev (dropWhile (\<lambda>c. c \<noteq> CHR ''/'') (rev p)) in
      if head \<noteq> '''' \<and> \<not> list_all (\<lambda>c. c = CHR ''/'') head
      then rev (dropWhile (\<lambda>c. c = CHR ''/'') (rev head))
      else head)"

definition os_makedirs :: "os_env \<Rightarrow> string \<Rightarrow> unit result" where
  "os_makedirs os d =
     (case makedirs_error os d of Some e \<Rightarrow> ([], Inl e) | None \<Rightarrow> ([Makedirs d], Inr ()))"

definition write_document :: "os_env \<Rightarrow> string \<Rightarrow> element \<Rightarrow> unit result" where
  "write_document os p root_node =
     (case write_error os p of
        Some e \<Rightarrow> ([], Inl e)
      | None \<Rightarrow> ([Write_file p root_node], Inr ()))"

definition save_report :: "os_env \<Rightarrow> junit_reporter \<Rightarrow> element \<Rightarrow> unit result" where
  "save_report os r root_node =
     (let tried =
            then_do
              (if path_exists os (report_file_path r)
               then ([Log WARNING ''File %s already exists, will be overwritten''
                        [S (report_file_path r)]], Inr ())
               else (let dir = dirname (report_file_path r) in
                     if dir \<noteq> '''' \<and> \<not> path_exists os dir
                     then os_makedirs os dir else skip))
              (\<lambda>_. then_do
                      ([Log INFO ''Writing JUnit XML report into: %s''
                          [S (report_file_path r)]], Inr ())
                      (\<lambda>_. write_document os (report_file_path r) root_node))
      in case tried of
           (evs, Inl e) \<Rightarrow>
             (evs @ [Log ERROR ''Cannot create file %s'' [S (report_file_path r)]], Inl e)
         | (evs, Inr u) \<Rightarrow> (evs, Inr u))"

text \<open>
  \<^verbatim>\<open>post_process\<close> of JUnitXMLReporter. The post_process of the base class does
  nothing.
\<close>

definition JUnitXMLReporter_post_process :: "os_env \<Rightarrow> junit_reporter \<Rightarrow> unit result" where
  "JUnitXMLReporter_post_process os r =
     (let test_data_source =
            (case param_data_source r of None \<Rightarrow> ''sample-labels'' | Some v \<Rightarrow> v)
      in case last_second r of
           None \<Rightarrow> skip
         | Some dp \<Rightarrow>
             then_do
               (if test_data_source = ''sample-labels'' then process_sample_labels r dp
                else if test_data_source = ''pass-fail'' then process_pass_fail r
                else ([], Inl (ValueError (''Unsupported data source: '' @ test_data_source))))
               (\<lambda>root_element. save_report os r root_element))"

text \<open>
  A reporter as its constructor leaves it, with nothing configured, under Python 3 and
  with the test of lxml on ASCII strings.
\<close>

definition default_reporter :: junit_reporter where
  "default_reporter =
     \<lparr>report_file_path = ''xunit.xml'', last_second = None, max_urls = 20,
      settings_max_urls = None, param_filename = None, param_data_source = None,
      bza_reporters = [], passfail_reporters = [], python3 = True,
      xml_valid = xml_compatible\<rparr>"

subsection \<open>Reference renderings and sample inputs\<close>

text \<open>
  The display name of a criterion as the specification words it: subject, then
  \<open>of\<close> and the label when there is one, condition and threshold, then \<open>for\<close>
  and the timeframe when there is one.
\<close>

definition spec_display_name :: "criterion \<Rightarrow> string" where
  "spec_display_name c =
     (if label c \<noteq> '''' then subject c @ '' of '' @ label c @ condition c @ threshold c
      else subject c @ condition c @ threshold c)
     @ (if truthy (timeframe c) then '' for '' @ str_opt (timeframe c) else '''')"

text \<open>
  The failure markers of an entry: of each child its tag, its attributes
  \<^verbatim>\<open>type\<close> and \<^verbatim>\<open>message\<close>, and its text.
\<close>

definition failure_markers ::
  "element \<Rightarrow> (string \<times> string option \<times> string option \<times> string option) list" where
  "failure_markers e =
     map (\<lambda>m. (tag m, get_attr m ''type'', get_attr m ''message'', etext m)) (children e)"

text \<open>What \<^verbatim>\<open>get_urls_errors\<close> writes for one error: its line, then a line per url.\<close>

definition entry_text :: "error_item \<Rightarrow> string" where
  "entry_text e = err_line e @ concat (map url_line (urls e))"

text \<open>An operating system with no file and no directory, where nothing fails.\<close>

definition quiet_os :: os_env where
  "quiet_os =
     \<lparr>path_exists = (\<lambda>p. False), makedirs_error = (\<lambda>p. None), write_error = (\<lambda>p. None)\<rparr>"

text \<open>A reporter configured with \<^verbatim>\<open>max-urls: 100\<close>.\<close>

definition reporter_100 :: junit_reporter where
  "reporter_100 = default_reporter\<lparr>max_urls := 100, settings_max_urls := Some 100\<rparr>"

definition server_error :: error_item where
  "server_error = \<lparr>rc = ''500'', msg = ''Internal Server Error'', cnt = 1, urls = []\<rparr>"

text \<open>
  An overall KPISet with two error signatures: their counts are 5 and 7, and their urls
  account for 1 + 2 and for 3 occurrences.
\<close>

definition two_signatures :: kpiset where
  "two_signatures =
     \<lparr>successes = 90, sample_count = 100, failures = 10, avg_resp_time = 0, avg_latency = 0,
      avg_conn_time = 0, percentiles = [],
      errors =
        [\<lparr>rc = ''500'', msg = ''a'', cnt = 5, urls = [(''u1'', 1), (''u2'', 2)]\<rparr>,
         \<lparr>rc = ''404'', msg = ''b'', cnt = 7, urls = [(''u3'', 3)]\<rparr>]\<rparr>"

text \<open>
  The error element that \<^verbatim>\<open>process_sample_labels\<close> builds for an error, and
  the entry that its loop appends for a label: a testcase named after it, with an error
  element per error of its KPISet.
\<close>

definition error_marker :: "error_item \<Rightarrow> element" where
  "error_marker er =
     Element ''error'' [(''message'', rc er), (''type'', msg er)]
       (Some (''total errors of this type:'' @ str_int (cnt er))) []"

definition label_entry :: "(string \<times> kpiset) list \<Rightarrow> string option \<Rightarrow> string \<Rightarrow> element" where
  "label_entry kp class_name key =
     Element ''testcase'' [(''classname'', str_opt class_name), (''name'', key)] None
       (map error_marker (case map_of kp key of None \<Rightarrow> [] | Some k \<Rightarrow> errors k))"

text \<open>
  The percentiles among the logged records: of each record with the percentile format,
  the rank and the value it was logged with.
\<close>

definition percentile_entry :: "event \<Rightarrow> (rat \<times> rat) list" where
  "percentile_entry ev =
     (case ev of
        Log lv fmt [F x, F v] \<Rightarrow>
          if lv = INFO \<and> fmt = ''Percentile %.1f%%: %.3f'' then [(x, v)] else []
      | _ \<Rightarrow> [])"

definition percentile_entries :: "event list \<Rightarrow> (rat \<times> rat) list" where
  "percentile_entries evs = concat (map percentile_entry evs)"

text \<open>
  A snapshot with the labels b and a, the latter with one error signature, and the
  document that \<^verbatim>\<open>process_sample_labels\<close> renders for it.
\<close>

definition labelled_snapshot :: datapoint where
  "labelled_snapshot =
     \<lparr>cumulative =
        [(''b'', empty_kpiset),
         ('''', empty_kpiset),
         (''a'', empty_kpiset\<lparr>errors :=
                   [\<lparr>rc = ''500'', msg = ''Internal Server Error'', cnt = 3,
                     urls = [(''http://x'', 3)]\<rparr>]\<rparr>)]\<rparr>"

definition labelled_document :: element where
  "labelled_document =
     Element ''testsuite'' [(''name'', ''sample_labels''), (''package'', ''bzt'')] None
       [Element ''testcase'' [(''classname'', ''bzt''), (''name'', ''summary_report'')] None
          [Element ''skipped'' [] None [],
           Element ''system-out'' []
             (Some ''Success: 0, Sample count: 0, Failures: 0, Errors: 0\<newline>'') []],
        Element ''testcase'' [(''classname'', ''bzt''), (''name'', ''a'')] None
          [Element ''error'' [(''message'', ''500''), (''type'', ''Internal Server Error'')]
             (Some ''total errors of this type:3'') []],
        Element ''testcase'' [(''classname'', ''bzt''), (''name'', ''b'')] None []]"

text \<open>
  A status that has received a snapshot of one sample with the percentile keys 10, 9
  and 99.5, and \<^verbatim>\<open>float\<close> restricted to these three keys, the only strings it is
  applied to there; a float holds each of the three numbers exactly.
\<close>

definition ranked_status :: final_status where
  "ranked_status =
     default_status\<lparr>last_sec := Some \<lparr>cumulative =
       [('''', empty_kpiset\<lparr>successes := 1, sample_count := 1,
                            percentiles := [(''10'', 3), (''9'', 2), (''99.5'', 4)]\<rparr>)]\<rparr>\<rparr>"

definition sample_floats :: "string \<Rightarrow> rat option" where
  "sample_floats = map_of [(''9'', 9), (''10'', 10), (''99.5'', 199 / 2)]"

text \<open>
  Operating systems for a report at \<^verbatim>\<open>out/xunit.xml\<close>: one where the file
  exists already, one where the directory cannot be created, one where the file cannot
  be written.
\<close>

definition existing_os :: os_env where
  "existing_os = quiet_os\<lparr>path_exists := (\<lambda>p. p = ''out/xunit.xml'' \<or> p = ''out'')\<rparr>"

definition no_mkdir_os :: os_env where
  "no_mkdir_os = quiet_os\<lparr>makedirs_error := (\<lambda>p. Some (OSError ''Permission denied''))\<rparr>"

definition no_write_os :: os_env where
  "no_write_os =
     existing_os\<lparr>write_error := (\<lambda>p. Some (OSError ''Read-only file system''))\<rparr>"

definition out_reporter :: junit_reporter where
  "out_reporter = default_reporter\<lparr>report_file_path := ''out/xunit.xml''\<rparr>"

text \<open>
  The two criteria of the specification's example: an unlabeled one, triggered and
  failing, and one for the label checkout with a timeframe, not triggered.
\<close>

definition avg_rt_criterion :: criterion where
  "avg_rt_criterion =
     \<lparr>subject = ''avg-rt'', label = '''', condition = ''>'', threshold = ''500ms'',
      timeframe = None, is_triggered = True, fail = True\<rparr>"

definition checkout_criterion :: criterion where
  "checkout_criterion =
     \<lparr>subject = ''failures'', label = ''checkout'', condition = ''>'', threshold = ''1%'',
      timeframe = Some ''30s'', is_triggered = False, fail = True\<rparr>"

text \<open>The document that \<^verbatim>\<open>process_pass_fail\<close> renders for these two.\<close>

definition pass_fail_document :: element where
  "pass_fail_document =
     Element ''testsuite'' [(''name'', ''bzt_pass_fail''), (''package'', ''bzt'')] None
       [Element ''testcase'' [(''classname'', ''bzt''), (''name'', ''avg-rt>500ms'')] None
          [Element ''error''
             [(''type'', ''pass/fail criteria triggered''), (''message'', '''')] None []],
        Element ''testcase''
          [(''classname'', ''bzt''), (''name'', ''failures of checkout>1% for 30s'')]
          None []]"

section \<open>Properties\<close>

text \<open>
  C1: for a snapshot whose overall KPISet has no samples, the post_process of
  FinalStatus with the summary enabled should log a failure rate of 0% and not raise.
  It divides by the sample count, unguarded: on the snapshot of an empty run it logs the
  duration and raises ZeroDivisionError, logging no failure rate.
\<close>

theorem FinalStatus_zero_samples_raises:
  "FinalStatus_post_process flt 5
     (FinalStatus_aggregated_second \<lparr>cumulative = [('''', empty_kpiset)]\<rparr> default_status)
   = ([Log INFO ''Test duration: %s'' [Timedelta 0 5]], Inl ZeroDivisionError)"
  by (simp add: FinalStatus_post_process_def FinalStatus_aggregated_second_def
      default_status_def empty_kpiset_def report_duration_def report_samples_count_def
      then_do_def skip_def py_int_def)

text \<open>
  The same outcome for every snapshot whose overall KPISet has no samples, when the
  summary is enabled.
\<close>

lemma zero_samples_raise:
  assumes "last_sec s = Some dp" and "map_of (cumulative dp) '''' = Some k"
    and "sample_count k = 0" and "param_summary s"
  shows "snd (FinalStatus_post_process flt now s) = Inl ZeroDivisionError"
  using assms
  by (simp add: FinalStatus_post_process_def Let_def then_do_def report_samples_count_def
      report_duration_def skip_def)

subsection \<open>Loops as sums and concatenations\<close>

lemma fold_append_lines:
  "fold (\<lambda>u w. w @ f u) us out = out @ concat (map f us)"
  by (induction us arbitrary: out) simp_all

lemma fold_url_counts:
  "fold (\<lambda>(url, err_count) c. c + err_count) us acc = acc + sum_list (map snd us)"
  by (induction us arbitrary: acc) (auto simp: add.assoc)

lemma fold_error_counts:
  "fold (\<lambda>error err_counter.
           fold (\<lambda>(url, err_count) c. c + err_count) (urls error) err_counter) es acc
   = acc + sum_list (map (\<lambda>e. sum_list (map snd (urls e))) es)"
  by (induction es arbitrary: acc) (simp_all add: fold_url_counts add.assoc)

lemma count_errors_sum:
  "count_errors k = sum_list (map (\<lambda>e. sum_list (map snd (urls e))) (errors k))"
  by (simp add: count_errors_def fold_error_counts)

text \<open>
  With \<^verbatim>\<open>max-urls\<close> set to \<open>m\<close>, the loop of \<^verbatim>\<open>get_urls_errors\<close>
  started at index \<open>n\<close> writes the errors up to index \<open>m\<close>, that one included.
\<close>

lemma urls_errors_loop_take:
  "urls_errors_loop py3 (Some m) (enumerate n es) out
   = Inr (out @ concat (map entry_text (take (nat (m + 1 - int n)) es)))"
proof (induction es arbitrary: n out)
  case Nil
  then show ?case by simp
next
  case (Cons e es)
  show ?case
  proof (cases "int n > m")
    case True
    then show ?thesis by simp
  next
    case False
    then have "nat (m + 1 - int n) = Suc (nat (m + 1 - int (Suc n)))" by simp
    with False Cons [of "Suc n"] show ?thesis
      by (simp add: fold_append_lines entry_text_def)
  qed
qed

lemma get_urls_errors_take:
  "settings_max_urls r = Some m \<Longrightarrow>
   get_urls_errors r k = Inr (concat (map entry_text (take (nat (m + 1)) (errors k))))"
  using urls_errors_loop_take [of "python3 r" m 0 "errors k" "''''"]
  by (simp add: get_urls_errors_def)

lemma str_int_small:
  "str_int 1 = ''1''" "str_int 2 = ''2''" "str_int 3 = ''3''" "str_int 5 = ''5''"
  "str_int 6 = ''6''" "str_int 7 = ''7''" "str_int 10 = ''10''" "str_int 90 = ''90''"
  "str_int 100 = ''100''"
  by code_simp+

subsection \<open>The cap on the error breakdown\<close>

text \<open>
  C2: with \<^verbatim>\<open>max-urls\<close> configured above 50, prepare should leave 50 as the
  cap and warn, and the breakdown of the summary should hold at most that many error
  signatures. For the reporter configured with 100, prepare warns and sets
  \<^verbatim>\<open>max_urls\<close> to 50; but \<^verbatim>\<open>get_urls_errors\<close> compares the index with
  \<^verbatim>\<open>settings.get("max-urls")\<close>, still 100, and stops only above it: of 51
  signatures it writes all 51.
\<close>

theorem max_urls_cap_not_applied:
  "fst (prepare (@) reporter_100)
     = [Log WARNING ''Limiting urls count in summary report to 50'' []]
   \<and> max_urls (snd (prepare (@) reporter_100)) = 50
   \<and> get_urls_errors (snd (prepare (@) reporter_100))
        (empty_kpiset\<lparr>errors := replicate 51 server_error\<rparr>)
      = Inr (concat (replicate 51
               ''Error code: 500, Message: Internal Server Error, count: 1\<newline>''))"
proof -
  have s: "settings_max_urls (snd (prepare (@) reporter_100)) = Some 100"
    by (simp add: prepare_def reporter_100_def default_reporter_def truthy_def)
  have e: "entry_text server_error
           = ''Error code: 500, Message: Internal Server Error, count: 1\<newline>''"
    by (simp add: entry_text_def err_line_def server_error_def str_int_small)
  have t: "take 101 (replicate 51 server_error) = replicate 51 server_error"
    by simp
  show ?thesis
    using get_urls_errors_take [OF s, of "empty_kpiset\<lparr>errors := replicate 51 server_error\<rparr>"]
    by (simp add: prepare_def reporter_100_def default_reporter_def truthy_def e t
        map_replicate_const)
qed

subsection \<open>The data source and the missing snapshot\<close>

text \<open>
  C3, as the claim states it: an unsupported \<^verbatim>\<open>data-source\<close> makes post_process
  raise whatever the rest of the state. It does not when no snapshot was delivered: the
  value is only looked at under \<^verbatim>\<open>if self.last_second\<close>.
\<close>

theorem unsupported_source_without_snapshot:
  "JUnitXMLReporter_post_process quiet_os (default_reporter\<lparr>param_data_source := Some ''csv''\<rparr>)
   = ([], Inr ())"
  by (simp add: JUnitXMLReporter_post_process_def skip_def default_reporter_def)

text \<open>
  C3, amended: once a snapshot has been delivered, a \<^verbatim>\<open>data-source\<close> other than
  \<^verbatim>\<open>sample-labels\<close> and \<^verbatim>\<open>pass-fail\<close> makes post_process raise
  ValueError with the message \<^verbatim>\<open>Unsupported data source: \<close> and the value, before
  anything is logged, built or written.
\<close>

theorem unsupported_source_raises:
  assumes "last_second r = Some dp"
    and "param_data_source r = Some v"
    and "v \<noteq> ''sample-labels''" and "v \<noteq> ''pass-fail''"
  shows "JUnitXMLReporter_post_process os r
         = ([], Inl (ValueError (''Unsupported data source: '' @ v)))"
  using assms by (simp add: JUnitXMLReporter_post_process_def then_do_def)

theorem unsupported_source_raises_witness:
  "JUnitXMLReporter_post_process quiet_os
     (default_reporter\<lparr>last_second := Some \<lparr>cumulative = [('''', empty_kpiset)]\<rparr>,
                        param_data_source := Some ''csv''\<rparr>)
   = ([], Inl (ValueError ''Unsupported data source: csv''))"
  using unsupported_source_raises
    [of "default_reporter\<lparr>last_second := Some \<lparr>cumulative = [('''', empty_kpiset)]\<rparr>,
                             param_data_source := Some ''csv''\<rparr>"
        "\<lparr>cumulative = [('''', empty_kpiset)]\<rparr>" "''csv''" quiet_os]
  by (simp add: default_reporter_def)

text \<open>
  C10: when no snapshot was ever delivered, post_process of JUnitXMLReporter builds no
  document, writes no file, logs nothing and returns without raising, whatever the
  \<^verbatim>\<open>data-source\<close>, supported or not.
\<close>

theorem no_snapshot_no_report:
  assumes "last_second r = None"
  shows "JUnitXMLReporter_post_process os r = ([], Inr ())"
  using assms by (simp add: JUnitXMLReporter_post_process_def skip_def)

theorem no_snapshot_no_report_witness:
  "last_second (default_reporter\<lparr>param_data_source := Some ''pass-fail''\<rparr>) = None
   \<and> JUnitXMLReporter_post_process quiet_os
       (default_reporter\<lparr>param_data_source := Some ''pass-fail''\<rparr>) = ([], Inr ())"
  using no_snapshot_no_report
    [of "default_reporter\<lparr>param_data_source := Some ''pass-fail''\<rparr>" quiet_os]
  by (simp add: default_reporter_def)

subsection \<open>The summary entry\<close>

text \<open>
  C8: the error count in the body of the summary entry is the sum, over the error
  signatures of the overall KPISet, of the counts in each signature's urls: the body
  begins with the line of the four counts, the last of them that sum. It is neither the
  number of signatures nor the sum of their \<^verbatim>\<open>cnt\<close>: for signatures with counts
  5 and 7 whose urls hold 1, 2 and 3 occurrences, it is 6.
\<close>

theorem summary_errors_total:
  assumes "make_summary_report r k report_urls = Inr summary"
  shows "\<exists>rest. map etext (children summary) =
           [None,
            Some (''Success: '' @ str_int (successes k) @ '', Sample count: ''
                  @ str_int (sample_count k) @ '', Failures: '' @ str_int (failures k)
                  @ '', Errors: ''
                  @ str_int (sum_list (map (\<lambda>e. sum_list (map snd (urls e))) (errors k)))
                  @ ''\<newline>'' @ rest)]"
  using assms
  by (auto simp: make_summary_report_def Let_def append_child_def count_errors_sum
      fold_append_lines set_text_def lxml_string_def split: sum.splits if_splits)

theorem summary_errors_total_witness:
  "make_summary_report (default_reporter\<lparr>settings_max_urls := Some 20\<rparr>) two_signatures []
   = Inr (Element ''testcase'' [(''classname'', ''bzt''), (''name'', ''summary_report'')] None
      [Element ''skipped'' [] None [],
       Element ''system-out'' []
         (Some (''Success: 90, Sample count: 100, Failures: 10, Errors: 6\<newline>''
            @ ''Error code: 500, Message: a, count: 5\<newline>''
            @ ''URL: u1, Error count 1\<newline>''
            @ ''URL: u2, Error count 2\<newline>''
            @ ''Error code: 404, Message: b, count: 7\<newline>''
            @ ''URL: u3, Error count 3\<newline>'')) []])
   \<and> sum_list (map (\<lambda>e. sum_list (map snd (urls e))) (errors two_signatures)) = 6"
proof -
  have h: "make_summary_report (default_reporter\<lparr>settings_max_urls := Some 20\<rparr>)
             two_signatures []
   = Inr (Element ''testcase'' [(''classname'', ''bzt''), (''name'', ''summary_report'')] None
      [Element ''skipped'' [] None [],
       Element ''system-out'' []
         (Some (''Success: 90, Sample count: 100, Failures: 10, Errors: 6\<newline>''
            @ ''Error code: 500, Message: a, count: 5\<newline>''
            @ ''URL: u1, Error count 1\<newline>''
            @ ''URL: u2, Error count 2\<newline>''
            @ ''Error code: 404, Message: b, count: 7\<newline>''
            @ ''URL: u3, Error count 3\<newline>'')) []])"
    by code_simp
  show ?thesis
    using h summary_errors_total [OF h] by (simp add: two_signatures_def)
qed

subsection \<open>Elements built by lxml\<close>

lemma etree_Element_two:
  "etree_Element ok t [(a, va), (b, vb)] = Inr e \<longleftrightarrow>
     (\<exists>x y. va = Some x \<and> vb = Some y \<and> ok x \<and> ok y \<and> e = Element t [(a, x), (b, y)] None [])"
  by (auto simp: etree_Element_def lxml_string_def split: option.splits)

lemma set_text_Inr:
  "set_text ok e s = Inr e' \<longleftrightarrow> ok s \<and> e' = Element (tag e) (attrib e) (Some s) (children e)"
  by (auto simp: set_text_def lxml_string_def)

subsection \<open>Pass/fail criteria\<close>

lemma pass_fail_testcase_eq:
  "pass_fail_testcase ok cn c =
     (if ok cn \<and> ok (spec_display_name c)
      then Inr (Element ''testcase'' [(''classname'', cn), (''name'', spec_display_name c)] None
                  (if is_triggered c \<and> fail c
                   then [Element ''error''
                           [(''type'', ''pass/fail criteria triggered''), (''message'', '''')]
                           None []]
                   else []))
      else Inl (ValueError
                 (''All strings must be XML compatible: Unicode or ASCII, ''
                  @ ''no NULL bytes or control characters'')))"
  by (simp add: pass_fail_testcase_def spec_display_name_def etree_Element_def
      lxml_string_def append_child_def Let_def)

lemma pass_fail_loop_Inr:
  "pass_fail_loop ok cn cs root_element = Inr doc \<Longrightarrow>
   doc = Element (tag root_element) (attrib root_element) (etext root_element)
           (children root_element
            @ map (\<lambda>c. Element ''testcase''
                          [(''classname'', cn), (''name'', spec_display_name c)] None
                          (if is_triggered c \<and> fail c
                           then [Element ''error''
                                   [(''type'', ''pass/fail criteria triggered''),
                                    (''message'', '''')] None []]
                           else [])) cs)"
proof (induction cs arbitrary: root_element)
  case Nil
  then show ?case by simp
next
  case (Cons c cs)
  from Cons.prems obtain tc where t: "pass_fail_testcase ok cn c = Inr tc"
    and l: "pass_fail_loop ok cn cs (append_child root_element tc) = Inr doc"
    by (auto split: sum.splits)
  from t have tc: "tc = Element ''testcase''
                          [(''classname'', cn), (''name'', spec_display_name c)] None
                          (if is_triggered c \<and> fail c
                           then [Element ''error''
                                   [(''type'', ''pass/fail criteria triggered''),
                                    (''message'', '''')] None []]
                           else [])"
    by (auto simp: pass_fail_testcase_eq split: if_splits)
  from Cons.IH [OF l] show ?case
    by (simp add: tc append_child_def)
qed

lemma pass_fail_loop_returns:
  "ok cn \<Longrightarrow> list_all (\<lambda>c. ok (spec_display_name c)) cs \<Longrightarrow>
   \<exists>doc. pass_fail_loop ok cn cs root_element = Inr doc"
  by (induction cs arbitrary: root_element) (simp_all add: pass_fail_testcase_eq)

lemma fold_snoc: "fold (\<lambda>fc a. a @ [fc]) cs acc = acc @ cs"
  by (induction cs arbitrary: acc) simp_all

lemma fail_criterias_concat:
  "fold (\<lambda>criterias acc.
           if criterias \<noteq> [] then fold (\<lambda>fc a. a @ [fc]) criterias acc else acc) pfs acc
   = acc @ concat pfs"
  by (induction pfs arbitrary: acc) (simp_all add: fold_snoc)

text \<open>
  In pass-fail mode the document is built whenever lxml accepts the class name and the
  display names of the criteria; here with no BlazeMeterUploader among the reporters.
\<close>

lemma process_pass_fail_returns:
  assumes "bza_reporters r = []" and "xml_valid r ''bzt''"
    and "list_all (\<lambda>c. xml_valid r (spec_display_name c)) (concat (passfail_reporters r))"
  shows "\<exists>doc. process_pass_fail r = ([], Inr doc)"
  using assms pass_fail_loop_returns [of "xml_valid r" "''bzt''" "concat (passfail_reporters r)"]
  by (simp add: process_pass_fail_def Let_def get_bza_report_info_def fail_criterias_concat
      truthy_def)

text \<open>The example of the specification: two entries, the first with a failure marker.\<close>

lemma pass_fail_example:
  "process_pass_fail
     (default_reporter\<lparr>passfail_reporters := [[avg_rt_criterion, checkout_criterion]]\<rparr>)
   = ([], Inr pass_fail_document)"
  by code_simp

text \<open>
  C6: in a document rendered in pass-fail mode there is one entry per criterion, in the
  order of the evaluators and of their criteria. The name of an entry is the display
  name of the specification: \<open>subject of label condition threshold\<close> with a label,
  \<open>subject condition threshold\<close> without, and \<open>for timeframe\<close> appended when
  there is a timeframe. The entry has one failure marker, of type
  \<^verbatim>\<open>pass/fail criteria triggered\<close> with an empty message, when the criterion is
  triggered and failing, and none otherwise.
\<close>

theorem pass_fail_rendering:
  assumes "process_pass_fail r = (evs, Inr doc)"
  shows "list_all2
       (\<lambda>c e. tag e = ''testcase'' \<and> get_attr e ''name'' = Some (spec_display_name c) \<and>
              failure_markers e =
                (if is_triggered c \<and> fail c
                 then [(''error'', Some ''pass/fail criteria triggered'', Some '''', None)]
                 else []))
       (concat (passfail_reporters r)) (children doc)"
proof -
  from assms obtain cn root_element where
    "pass_fail_loop (xml_valid r) cn (concat (passfail_reporters r)) root_element = Inr doc"
    and "children root_element = []"
    by (auto simp: process_pass_fail_def Let_def case_prod_beta fail_criterias_concat)
  from pass_fail_loop_Inr [OF this(1)] this(2) show ?thesis
    by (simp add: list_all2_map2 list_all2_same get_attr_def failure_markers_def)
qed

theorem pass_fail_rendering_witness:
  "process_pass_fail
     (default_reporter\<lparr>passfail_reporters := [[avg_rt_criterion, checkout_criterion]]\<rparr>)
   = ([], Inr pass_fail_document)
   \<and> map (\<lambda>e. get_attr e ''name'') (children pass_fail_document)
       = [Some ''avg-rt>500ms'', Some ''failures of checkout>1% for 30s'']
   \<and> map failure_markers (children pass_fail_document)
       = [[(''error'', Some ''pass/fail criteria triggered'', Some '''', None)], []]"
proof -
  have h: "process_pass_fail
     (default_reporter\<lparr>passfail_reporters := [[avg_rt_criterion, checkout_criterion]]\<rparr>)
   = ([], Inr pass_fail_document)"
    by (rule pass_fail_example)
  show ?thesis
    using h pass_fail_rendering [OF h]
    by (simp add: pass_fail_document_def get_attr_def failure_markers_def)
qed

subsection \<open>The document of the sample labels\<close>

lemma error_element_Inr:
  "error_element ok er = Inr e \<Longrightarrow> e = error_marker er"
  by (auto simp: error_element_def Let_def error_marker_def etree_Element_two set_text_Inr
      split: sum.splits)

lemma errors_loop_Inr:
  "errors_loop ok ers tc = Inr tc' \<Longrightarrow>
   tc' = Element (tag tc) (attrib tc) (etext tc) (children tc @ map error_marker ers)"
proof (induction ers arbitrary: tc)
  case Nil
  then show ?case by simp
next
  case (Cons er ers)
  from Cons.prems obtain e where e: "error_element ok er = Inr e"
    and l: "errors_loop ok ers (append_child tc e) = Inr tc'"
    by (auto split: sum.splits)
  from Cons.IH [OF l] error_element_Inr [OF e] show ?case
    by (simp add: append_child_def)
qed

lemma labels_loop_children:
  assumes "labels_loop ok kp cno keys root_element = Inr doc"
  shows "doc = Element (tag root_element) (attrib root_element) (etext root_element)
           (children root_element
            @ map (label_entry kp cno) (filter (\<lambda>key. key \<noteq> '''') keys))"
  using assms
proof (induction keys arbitrary: root_element)
  case Nil
  then show ?case by simp
next
  case (Cons key keys)
  show ?case
  proof (cases "key = ''''")
    case True
    with Cons show ?thesis by simp
  next
    case False
    from Cons.prems False obtain cn k tc where cn: "cno = Some cn"
      and k: "map_of kp key = Some k"
      and tc: "(if errors k \<noteq> []
                then errors_loop ok (errors k)
                       (Element ''testcase'' [(''classname'', cn), (''name'', key)] None [])
                else Inr (Element ''testcase'' [(''classname'', cn), (''name'', key)] None []))
               = Inr tc"
      and loop: "labels_loop ok kp cno keys (append_child root_element tc) = Inr doc"
      by (auto simp: etree_Element_two split: option.splits sum.splits)
    have entry: "tc = label_entry kp cno key"
      using tc errors_loop_Inr [of ok "errors k"
          "Element ''testcase'' [(''classname'', cn), (''name'', key)] None []" tc]
      by (auto simp: label_entry_def cn k str_opt_def split: if_splits)
    from Cons.IH [OF loop [unfolded entry]] False show ?thesis
      by (simp add: append_child_def)
  qed
qed

lemma process_sample_labels_children:
  assumes "process_sample_labels r dp = (evs, Inr doc)"
  shows "\<exists>summary cno k. map_of (cumulative dp) '''' = Some k
           \<and> make_summary_report r k (map fst (snd (get_bza_report_info r))) = Inr summary
           \<and> children doc = summary # map (label_entry (cumulative dp) cno)
                 (filter (\<lambda>key. key \<noteq> '''') (sort (map fst (cumulative dp))))"
  using assms
  by (auto simp: process_sample_labels_def Let_def case_prod_beta append_child_def
      split: option.splits sum.splits dest!: labels_loop_children)

lemma make_summary_report_shape:
  assumes "make_summary_report r k us = Inr summary"
  shows "tag summary = ''testcase'' \<and> get_attr summary ''name'' = Some ''summary_report''
         \<and> get_attr summary ''classname'' = Some ''bzt''
         \<and> map tag (children summary) = [''skipped'', ''system-out'']"
  using assms
  by (auto simp: make_summary_report_def Let_def append_child_def get_attr_def set_text_Inr
      split: sum.splits)

lemma sorted_nonempty_labels:
  assumes "distinct ks"
  shows "filter (\<lambda>key. key \<noteq> '''') (sort ks) = sorted_list_of_set (set ks - {''''})"
proof -
  have "set ks - {''''} = set (filter (\<lambda>key. key \<noteq> '''') ks)" by auto
  then have "sorted_list_of_set (set ks - {''''}) = sort (remdups (filter (\<lambda>key. key \<noteq> '''') ks))"
    by (simp only: sorted_list_of_set_sort_remdups)
  also have "\<dots> = sort (filter (\<lambda>key. key \<noteq> '''') ks)"
    using assms by (simp add: distinct_remdups_id)
  also have "\<dots> = filter (\<lambda>key. key \<noteq> '''') (sort ks)"
    by (simp add: filter_sort)
  finally show ?thesis by simp
qed

text \<open>
  The document is rendered whenever the summary entry is built and lxml accepts the
  class name, the labels, and of each error of a label the response code, the message
  and the text; here with no BlazeMeterUploader among the reporters.
\<close>

lemma errors_loop_returns:
  "list_all (\<lambda>e. ok (rc e) \<and> ok (msg e)
                \<and> ok (''total errors of this type:'' @ str_int (cnt e))) ers \<Longrightarrow>
   \<exists>tc'. errors_loop ok ers tc = Inr tc'"
  by (induction ers arbitrary: tc)
    (simp_all add: error_element_def Let_def etree_Element_def lxml_string_def set_text_def)

lemma labels_loop_returns:
  assumes "ok cn"
    and "list_all (\<lambda>key. ok key) keys"
    and "set keys \<subseteq> fst ` set kp"
    and "list_all (\<lambda>p. list_all (\<lambda>e. ok (rc e) \<and> ok (msg e)
                \<and> ok (''total errors of this type:'' @ str_int (cnt e))) (errors (snd p))) kp"
  shows "\<exists>doc. labels_loop ok kp (Some cn) keys root_element = Inr doc"
  using assms(2,3)
proof (induction keys arbitrary: root_element)
  case Nil
  then show ?case by simp
next
  case (Cons key keys)
  then obtain k where k: "map_of kp key = Some k"
    by (cases "map_of kp key") (auto simp: map_of_eq_None_iff)
  then have "(key, k) \<in> set kp" by (rule map_of_SomeD)
  with assms(4) have "list_all (\<lambda>e. ok (rc e) \<and> ok (msg e)
                \<and> ok (''total errors of this type:'' @ str_int (cnt e))) (errors k)"
    by (auto simp: list_all_iff)
  from errors_loop_returns [OF this] obtain tc' where
    "errors_loop ok (errors k)
       (Element ''testcase'' [(''classname'', cn), (''name'', key)] None []) = Inr tc'"
    by blast
  with Cons k assms(1) show ?case
    by (simp add: etree_Element_def lxml_string_def)
qed

lemma process_sample_labels_returns:
  assumes "map_of (cumulative dp) '''' = Some k" and "bza_reporters r = []"
    and "make_summary_report r k [] = Inr summary"
    and "xml_valid r ''bzt''"
    and "list_all (\<lambda>p. xml_valid r (fst p)) (cumulative dp)"
    and "list_all (\<lambda>p. list_all (\<lambda>e. xml_valid r (rc e) \<and> xml_valid r (msg e)
                \<and> xml_valid r (''total errors of this type:'' @ str_int (cnt e)))
                  (errors (snd p))) (cumulative dp)"
  shows "\<exists>doc. process_sample_labels r dp = ([], Inr doc)"
proof -
  have keys: "list_all (\<lambda>key. xml_valid r key) (sort (map fst (cumulative dp)))"
    using assms(5) by (auto simp: list_all_iff)
  have "set (sort (map fst (cumulative dp))) \<subseteq> fst ` set (cumulative dp)"
    by simp
  from labels_loop_returns [OF assms(4) keys this assms(6)]
  show ?thesis
    using assms(1-3)
    by (simp add: process_sample_labels_def Let_def get_bza_report_info_def)
qed

text \<open>
  C7: a document rendered in sample-labels mode has the summary entry first, named
  \<^verbatim>\<open>summary_report\<close> and holding the \<^verbatim>\<open>skipped\<close> marker and the
  text; after it come exactly the distinct non-empty labels of the cumulative view, one
  testcase each, in ascending order, none of them marked as skipped.
\<close>

theorem sample_labels_entries:
  assumes "process_sample_labels r dp = (evs, Inr doc)"
    and "distinct (map fst (cumulative dp))"
  shows "\<exists>summary entries.
           children doc = summary # entries
           \<and> get_attr summary ''name'' = Some ''summary_report''
           \<and> map tag (children summary) = [''skipped'', ''system-out'']
           \<and> map (\<lambda>e. get_attr e ''name'') entries
               = map Some (sorted_list_of_set (set (map fst (cumulative dp)) - {''''}))
           \<and> list_all (\<lambda>e. tag e = ''testcase'' \<and> ''skipped'' \<notin> set (map tag (children e)))
                entries"
proof -
  from process_sample_labels_children [OF assms(1)] obtain summary cno k where
    s: "make_summary_report r k (map fst (snd (get_bza_report_info r))) = Inr summary"
    and c: "children doc = summary # map (label_entry (cumulative dp) cno)
                 (filter (\<lambda>key. key \<noteq> '''') (sort (map fst (cumulative dp))))"
    by blast
  let ?ks = "filter (\<lambda>key. key \<noteq> '''') (sort (map fst (cumulative dp)))"
  let ?entries = "map (label_entry (cumulative dp) cno) ?ks"
  have n: "map (\<lambda>e. get_attr e ''name'') ?entries = map Some ?ks"
    by (simp add: label_entry_def get_attr_def comp_def)
  have t: "list_all (\<lambda>e. tag e = ''testcase'' \<and> ''skipped'' \<notin> set (map tag (children e)))
             ?entries"
    by (auto simp: list_all_iff label_entry_def error_marker_def)
  have k: "?ks = sorted_list_of_set (set (map fst (cumulative dp)) - {''''})"
    by (rule sorted_nonempty_labels [OF assms(2)])
  have all: "children doc = summary # ?entries
           \<and> get_attr summary ''name'' = Some ''summary_report''
           \<and> map tag (children summary) = [''skipped'', ''system-out'']
           \<and> map (\<lambda>e. get_attr e ''name'') ?entries
               = map Some (sorted_list_of_set (set (map fst (cumulative dp)) - {''''}))
           \<and> list_all (\<lambda>e. tag e = ''testcase'' \<and> ''skipped'' \<notin> set (map tag (children e)))
                ?entries"
    using make_summary_report_shape [OF s] c n t k by (simp only: simp_thms)
  show ?thesis
    by (rule exI [of _ summary], rule exI [of _ "?entries"], rule all)
qed

lemma labelled_snapshot_rendered:
  "process_sample_labels default_reporter labelled_snapshot = ([], Inr labelled_document)"
  by code_simp

theorem sample_labels_entries_witness:
  "process_sample_labels default_reporter labelled_snapshot = ([], Inr labelled_document)
   \<and> distinct (map fst (cumulative labelled_snapshot))
   \<and> map (\<lambda>e. get_attr e ''name'') (children labelled_document)
       = [Some ''summary_report'', Some ''a'', Some ''b'']"
proof -
  have h: "process_sample_labels default_reporter labelled_snapshot
           = ([], Inr labelled_document)"
    by (rule labelled_snapshot_rendered)
  have d: "distinct (map fst (cumulative labelled_snapshot))"
    by (simp add: labelled_snapshot_def)
  show ?thesis
    using h d sample_labels_entries [OF h d]
    by (simp add: labelled_document_def get_attr_def)
qed

lemma filter_eq_distinct:
  "distinct ks \<Longrightarrow> lbl \<in> set ks \<Longrightarrow> filter (\<lambda>key. key = lbl) ks = [lbl]"
  by (induction ks) (auto simp: filter_empty_conv)

text \<open>
  C4, as the claim states it: the type of a failure marker is the response code and its
  message the message text. For the label a, whose one error has the response code 500
  and the message text \<^verbatim>\<open>Internal Server Error\<close>, the marker has the type
  \<^verbatim>\<open>Internal Server Error\<close> and the message 500: the code passes
  \<^verbatim>\<open>str(er_dict["rc"])\<close> as \<^verbatim>\<open>message\<close> and
  \<^verbatim>\<open>str(er_dict["msg"])\<close> as \<^verbatim>\<open>type\<close>.
\<close>

theorem error_marker_type_is_message:
  "process_sample_labels default_reporter labelled_snapshot = ([], Inr labelled_document)
   \<and> failure_markers (children labelled_document ! 1)
       = [(''error'', Some ''Internal Server Error'', Some ''500'',
           Some ''total errors of this type:3'')]"
  using labelled_snapshot_rendered
  by (simp add: labelled_document_def failure_markers_def get_attr_def)

text \<open>
  C4, amended: in a document rendered in sample-labels mode, exactly one entry after the
  summary is named after a given non-empty label, and it carries one error marker per
  error signature of that label, in their order: the attribute \<^verbatim>\<open>type\<close> is the
  signature's message text, the attribute \<^verbatim>\<open>message\<close> is its response code,
  and the body is \<^verbatim>\<open>total errors of this type:\<close> followed by its count.
\<close>

theorem label_failure_markers:
  assumes "process_sample_labels r dp = (evs, Inr doc)"
    and "distinct (map fst (cumulative dp))"
    and "(lbl, k) \<in> set (cumulative dp)" and "lbl \<noteq> ''''"
  shows "map failure_markers
           (filter (\<lambda>e. get_attr e ''name'' = Some lbl) (tl (children doc)))
         = [map (\<lambda>er. (''error'', Some (msg er), Some (rc er),
                        Some (''total errors of this type:'' @ str_int (cnt er))))
              (errors k)]"
proof -
  from process_sample_labels_children [OF assms(1)] obtain summary cno where
    c: "children doc = summary # map (label_entry (cumulative dp) cno)
                 (filter (\<lambda>key. key \<noteq> '''') (sort (map fst (cumulative dp))))"
    by blast
  let ?ks = "filter (\<lambda>key. key \<noteq> '''') (sort (map fst (cumulative dp)))"
  have d: "distinct ?ks" using assms(2) by simp
  have m: "lbl \<in> set ?ks" using assms(3,4) by force
  have f: "filter (\<lambda>e. get_attr e ''name'' = Some lbl) (map (label_entry (cumulative dp) cno) ?ks)
           = map (label_entry (cumulative dp) cno) (filter (\<lambda>key. key = lbl) ?ks)"
    by (simp add: filter_map comp_def label_entry_def get_attr_def)
  have k: "map_of (cumulative dp) lbl = Some k"
    using assms(2,3) by simp
  have "filter (\<lambda>e. get_attr e ''name'' = Some lbl) (tl (children doc))
        = [label_entry (cumulative dp) cno lbl]"
    unfolding c list.sel f filter_eq_distinct [OF d m] by simp
  then show ?thesis
    by (simp add: label_entry_def k failure_markers_def error_marker_def
        get_attr_def comp_def)
qed

theorem label_failure_markers_witness:
  "map failure_markers
     (filter (\<lambda>e. get_attr e ''name'' = Some ''a'') (tl (children labelled_document)))
   = [[(''error'', Some ''Internal Server Error'', Some ''500'',
        Some ''total errors of this type:3'')]]"
proof -
  have h: "process_sample_labels default_reporter labelled_snapshot
           = ([], Inr labelled_document)"
    by (rule labelled_snapshot_rendered)
  have d: "distinct (map fst (cumulative labelled_snapshot))"
    by (simp add: labelled_snapshot_def)
  have m: "(''a'', empty_kpiset\<lparr>errors :=
                   [\<lparr>rc = ''500'', msg = ''Internal Server Error'', cnt = 3,
                     urls = [(''http://x'', 3)]\<rparr>]\<rparr>) \<in> set (cumulative labelled_snapshot)"
    by (simp add: labelled_snapshot_def)
  show ?thesis
    using label_failure_markers [OF h d m] by (simp add: str_int_small)
qed

subsection \<open>The percentiles of the final status\<close>

lemma percentile_entries_append [simp]:
  "percentile_entries (xs @ ys) = percentile_entries xs @ percentile_entries ys"
  by (simp add: percentile_entries_def)

lemma percentile_entries_Nil [simp]: "percentile_entries [] = []"
  by (simp add: percentile_entries_def)

lemma float_keys_Inr:
  "float_keys flt keys = Inr ks \<Longrightarrow> ks = map (\<lambda>key. (the (flt key), key)) keys"
  by (induction keys arbitrary: ks) (auto split: option.splits sum.splits)

lemma percentile_lines_entries:
  "percentile_lines perc ks = (evs, Inr u) \<Longrightarrow>
   percentile_entries evs = map (\<lambda>p. (fst p, the (map_of perc (snd p)))) ks"
proof (induction ks arbitrary: evs)
  case Nil
  then show ?case by (simp add: skip_def)
next
  case (Cons p ks)
  obtain x key where p: "p = (x, key)" by (cases p)
  from Cons.prems obtain v evs' where v: "map_of perc key = Some v"
    and r: "percentile_lines perc ks = (evs', Inr u)"
    and e: "evs = Log INFO ''Percentile %.1f%%: %.3f'' [F x, F v] # evs'"
    by (auto simp: p then_do_def split: option.splits prod.splits sum.splits)
  show ?case
    using Cons.IH [OF r] by (simp add: e p v percentile_entries_def percentile_entry_def)
qed

lemma report_percentiles_entries:
  assumes "report_percentiles flt k = (evs, Inr u)"
  shows "percentile_entries evs
         = map (\<lambda>p. (fst p, the (map_of (percentiles k) (snd p))))
             (sort_key fst (map (\<lambda>key. (the (flt key), key)) (map fst (percentiles k))))"
proof -
  from assms obtain ks evs' where ks: "float_keys flt (map fst (percentiles k)) = Inr ks"
    and l: "percentile_lines (percentiles k) (sort_key fst ks) = (evs', Inr u)"
    and e: "evs = Log INFO ''Average times: total %.3f, latency %.3f, connect %.3f''
           [F (avg_resp_time k), F (avg_latency k), F (avg_conn_time k)] # evs'"
    by (auto simp: report_percentiles_def then_do_def split: sum.splits prod.splits)
  show ?thesis
    using percentile_lines_entries [OF l] float_keys_Inr [OF ks]
    by (simp add: e percentile_entries_def percentile_entry_def)
qed

lemma failed_labels_no_entries:
  "failed_labels_loop cum ls = (evs, r) \<Longrightarrow> percentile_entries evs = []"
proof (induction ls arbitrary: evs)
  case Nil
  then show ?case by (simp add: skip_def)
next
  case (Cons l ls)
  then show ?case
    by (auto simp: then_do_def skip_def percentile_entries_def percentile_entry_def
        split: if_splits option.splits prod.splits sum.splits)
qed

lemma failed_labels_section:
  "(if c then report_failed_labels cum else skip) = (evs, r) \<Longrightarrow> percentile_entries evs = []"
  by (auto simp: skip_def report_failed_labels_def split: if_splits
      dest: failed_labels_no_entries)

lemma samples_count_section:
  "(if c then report_samples_count k else skip) = (evs, r) \<Longrightarrow> percentile_entries evs = []"
  by (auto simp: report_samples_count_def Let_def skip_def percentile_entries_def
      percentile_entry_def split: if_splits)

lemma duration_section:
  "(if c then report_duration a b else skip) = (evs, r) \<Longrightarrow> percentile_entries evs = []"
  by (auto simp: report_duration_def skip_def percentile_entries_def percentile_entry_def
      split: if_splits)

lemma then_do_Inr:
  "then_do m f = (evs, Inr y) \<Longrightarrow> \<exists>e1 x e2. m = (e1, Inr x) \<and> f x = (e2, Inr y) \<and> evs = e1 @ e2"
  by (auto simp: then_do_def split: prod.splits sum.splits)

lemma post_process_entries:
  assumes "FinalStatus_post_process flt now s = (evs, Inr s')"
    and "last_sec s = Some dp" and "map_of (cumulative dp) '''' = Some k"
    and "param_percentiles s"
  shows "\<exists>evs' u. report_percentiles flt k = (evs', Inr u)
           \<and> percentile_entries evs = percentile_entries evs'"
proof -
  let ?rest3 = "\<lambda>_::unit. then_do (if param_failed_labels s
                                then report_failed_labels (cumulative dp) else skip)
                    (\<lambda>_. ([], Inr (s\<lparr>end_time := Some now\<rparr>)))"
  let ?rest2 = "\<lambda>_::unit. then_do (report_percentiles flt k) ?rest3"
  let ?rest1 = "\<lambda>_::unit. then_do (if param_summary s then report_samples_count k else skip)
                  ?rest2"
  have A: "then_do (if param_test_duration s then report_duration (start_time s) now else skip)
             ?rest1 = (evs, Inr s')"
    using assms
    by (simp add: FinalStatus_post_process_def Let_def cong: if_cong split del: if_split)
  from then_do_Inr [OF A] obtain e1 x1 r1 where
    1: "(if param_test_duration s then report_duration (start_time s) now else skip)
        = (e1, Inr x1)"
    and B: "?rest1 x1 = (r1, Inr s')" and evs: "evs = e1 @ r1"
    by blast
  from then_do_Inr [OF B] obtain e3 x3 r3 where
    3: "(if param_summary s then report_samples_count k else skip) = (e3, Inr x3)"
    and C: "?rest2 x3 = (r3, Inr s')" and r1: "r1 = e3 @ r3"
    by blast
  from then_do_Inr [OF C] obtain e4 x4 r4 where
    4: "report_percentiles flt k = (e4, Inr x4)"
    and D: "?rest3 x4 = (r4, Inr s')" and r3: "r3 = e4 @ r4"
    by blast
  from then_do_Inr [OF D] obtain e5 x5 r5 where
    5: "(if param_failed_labels s then report_failed_labels (cumulative dp) else skip)
        = (e5, Inr x5)"
    and E: "([], Inr (s\<lparr>end_time := Some now\<rparr>)) = (r5, Inr s')" and r4: "r4 = e5 @ r5"
    by blast
  have "percentile_entries evs = percentile_entries e4"
    using duration_section [OF 1] samples_count_section [OF 3] failed_labels_section [OF 5] E
    by (simp add: evs r1 r3 r4)
  with 4 show ?thesis by blast
qed

text \<open>
  The percentile records are those of the keys, in ascending order of the float of
  the key; keys with the same float follow each other.
\<close>

lemma percentile_entries_sorted:
  assumes "FinalStatus_post_process flt now s = (evs, Inr s')"
    and "last_sec s = Some dp" and "map_of (cumulative dp) '''' = Some k"
    and "param_percentiles s"
  shows "mset (percentile_entries evs)
           = mset (map (\<lambda>key. (the (flt key), the (map_of (percentiles k) key)))
                    (map fst (percentiles k)))
         \<and> sorted (map fst (percentile_entries evs))
         \<and> (distinct (map flt (map fst (percentiles k)))
              \<longrightarrow> sorted_wrt (<) (map fst (percentile_entries evs)))"
proof -
  let ?dec = "map (\<lambda>key. (the (flt key), key)) (map fst (percentiles k))"
  from post_process_entries [OF assms] obtain evs' u where
    r: "report_percentiles flt k = (evs', Inr u)"
    and e: "percentile_entries evs = percentile_entries evs'"
    by blast
  have ks: "float_keys flt (map fst (percentiles k)) = Inr ?dec"
    using r float_keys_Inr [of flt "map fst (percentiles k)"]
    by (auto simp: report_percentiles_def then_do_def split: sum.splits prod.splits)
  have some: "flt key \<noteq> None" if "key \<in> set keys" "float_keys flt keys = Inr ks" for key keys ks
    using that by (induction keys arbitrary: ks) (auto split: option.splits sum.splits)
  have ent: "percentile_entries evs
             = map (\<lambda>p. (fst p, the (map_of (percentiles k) (snd p)))) (sort_key fst ?dec)"
    using report_percentiles_entries [OF r] e by simp
  have f: "map fst (percentile_entries evs) = map fst (sort_key fst ?dec)"
    by (simp add: ent comp_def)
  have m: "mset (percentile_entries evs)
           = mset (map (\<lambda>p. (fst p, the (map_of (percentiles k) (snd p)))) ?dec)"
    unfolding ent by (simp only: mset_map mset_sort)
  have srt: "sorted (map fst (percentile_entries evs))"
    by (simp only: f sorted_sort_key)
  have strict: "sorted_wrt (<) (map fst (percentile_entries evs))"
    if d: "distinct (map flt (map fst (percentiles k)))"
  proof -
    have inj: "inj_on (\<lambda>key. the (flt key)) (set (map fst (percentiles k)))"
    proof (rule inj_onI)
      fix a b assume a: "a \<in> set (map fst (percentiles k))"
        and b: "b \<in> set (map fst (percentiles k))" and eq: "the (flt a) = the (flt b)"
      from some [OF a ks] some [OF b ks] eq have "flt a = flt b" by auto
      with d a b show "a = b"
        by (metis distinct_map inj_on_eq_iff)
    qed
    from d have dk: "distinct (map fst (percentiles k))"
      by (rule distinct_map [THEN iffD1, THEN conjunct1])
    have md: "map fst ?dec = map (\<lambda>key. the (flt key)) (map fst (percentiles k))"
      by (simp add: comp_def)
    have dd: "distinct (map fst ?dec)"
      unfolding md by (rule distinct_map [THEN iffD2, OF conjI [OF dk inj]])
    have "mset (map fst (sort_key fst ?dec)) = mset (map fst ?dec)"
      by (simp only: mset_map mset_sort)
    from mset_eq_imp_distinct_iff [OF this, THEN iffD2, OF dd]
    have "distinct (map fst (sort_key fst ?dec))" .
    with srt f show ?thesis
      by (simp add: strict_sorted_iff)
  qed
  show ?thesis using m srt strict by (simp add: comp_def)
qed

text \<open>
  C5: when post_process of FinalStatus returns, with percentiles enabled and a snapshot
  received whose percentile keys are numeric strings with pairwise distinct floats (the
  percentile ranks of a mapping from rank to value), the percentile records it has logged
  are those of the keys of the overall KPISet, each with the float of its key and its
  value, in strictly ascending order of that float, whatever the length of the keys: 9
  comes before 10.
\<close>

theorem percentiles_ascending:
  assumes "FinalStatus_post_process flt now s = (evs, Inr s')"
    and "last_sec s = Some dp" and "map_of (cumulative dp) '''' = Some k"
    and "param_percentiles s"
    and "distinct (map flt (map fst (percentiles k)))"
  shows "mset (percentile_entries evs)
           = mset (map (\<lambda>key. (the (flt key), the (map_of (percentiles k) key)))
                    (map fst (percentiles k)))
         \<and> sorted_wrt (<) (map fst (percentile_entries evs))"
  using percentile_entries_sorted [OF assms(1-4)] assms(5) by blast

theorem percentiles_ascending_witness:
  "FinalStatus_post_process sample_floats 5 ranked_status
   = ([Log INFO ''Test duration: %s'' [Timedelta 0 5],
       Log INFO ''Samples count: %s, %.2f%% failures'' [I 1, F 0],
       Log INFO ''Average times: total %.3f, latency %.3f, connect %.3f'' [F 0, F 0, F 0],
       Log INFO ''Percentile %.1f%%: %.3f'' [F 9, F 2],
       Log INFO ''Percentile %.1f%%: %.3f'' [F 10, F 3],
       Log INFO ''Percentile %.1f%%: %.3f'' [F (199 / 2), F 4]],
      Inr (ranked_status\<lparr>end_time := Some 5\<rparr>))
   \<and> distinct (map sample_floats [''10'', ''9'', ''99.5''])
   \<and> sorted_wrt (<)
         (map fst (percentile_entries
            (fst (FinalStatus_post_process sample_floats 5 ranked_status))))"
proof -
  have h: "FinalStatus_post_process sample_floats 5 ranked_status
   = ([Log INFO ''Test duration: %s'' [Timedelta 0 5],
       Log INFO ''Samples count: %s, %.2f%% failures'' [I 1, F 0],
       Log INFO ''Average times: total %.3f, latency %.3f, connect %.3f'' [F 0, F 0, F 0],
       Log INFO ''Percentile %.1f%%: %.3f'' [F 9, F 2],
       Log INFO ''Percentile %.1f%%: %.3f'' [F 10, F 3],
       Log INFO ''Percentile %.1f%%: %.3f'' [F (199 / 2), F 4]],
      Inr (ranked_status\<lparr>end_time := Some 5\<rparr>))"
    by (simp add: FinalStatus_post_process_def ranked_status_def default_status_def
        empty_kpiset_def report_duration_def report_samples_count_def report_percentiles_def
        then_do_def skip_def py_int_def sample_floats_def)
  have l: "last_sec ranked_status = Some \<lparr>cumulative =
       [('''', empty_kpiset\<lparr>successes := 1, sample_count := 1,
                            percentiles := [(''10'', 3), (''9'', 2), (''99.5'', 4)]\<rparr>)]\<rparr>"
    by (simp add: ranked_status_def default_status_def)
  have c: "map_of (cumulative \<lparr>cumulative =
       [('''', empty_kpiset\<lparr>successes := 1, sample_count := 1,
                            percentiles := [(''10'', 3), (''9'', 2), (''99.5'', 4)]\<rparr>)]\<rparr>) ''''
      = Some (empty_kpiset\<lparr>successes := 1, sample_count := 1,
                            percentiles := [(''10'', 3), (''9'', 2), (''99.5'', 4)]\<rparr>)"
    by simp
  have p: "param_percentiles ranked_status"
    by (simp add: ranked_status_def default_status_def)
  have d: "distinct (map sample_floats (map fst (percentiles
             (empty_kpiset\<lparr>successes := 1, sample_count := 1,
                            percentiles := [(''10'', 3), (''9'', 2), (''99.5'', 4)]\<rparr>))))"
    by (simp add: sample_floats_def)
  show ?thesis
    using h percentiles_ascending [OF h l c p d] by (simp add: sample_floats_def)
qed

subsection \<open>Saving the report\<close>

lemma dirname_out: "dirname ''out/xunit.xml'' = ''out''"
  by (simp add: dirname_def)

text \<open>
  C9: \<^verbatim>\<open>save_report\<close>, by what the operating system answers. When the target
  exists, a warning is logged and the document is written over it. When the target does
  not exist and its directory is missing, the directory is created before the document
  is written. When creating the directory or writing the file raises, nothing is written,
  the last record logged is at error severity, and the same exception is raised to the
  caller; and whenever \<^verbatim>\<open>save_report\<close> raises, that is what happened.
\<close>

theorem save_report_outcomes:
  "(path_exists os (report_file_path r) \<and> write_error os (report_file_path r) = None \<longrightarrow>
      save_report os r doc
      = ([Log WARNING ''File %s already exists, will be overwritten'' [S (report_file_path r)],
          Log INFO ''Writing JUnit XML report into: %s'' [S (report_file_path r)],
          Write_file (report_file_path r) doc], Inr ()))
   \<and> (\<not> path_exists os (report_file_path r) \<and> dirname (report_file_path r) \<noteq> ''''
        \<and> \<not> path_exists os (dirname (report_file_path r))
        \<and> makedirs_error os (dirname (report_file_path r)) = None
        \<and> write_error os (report_file_path r) = None \<longrightarrow>
      save_report os r doc
      = ([Makedirs (dirname (report_file_path r)),
          Log INFO ''Writing JUnit XML report into: %s'' [S (report_file_path r)],
          Write_file (report_file_path r) doc], Inr ()))
   \<and> (\<not> path_exists os (report_file_path r) \<and> dirname (report_file_path r) \<noteq> ''''
        \<and> \<not> path_exists os (dirname (report_file_path r))
        \<and> makedirs_error os (dirname (report_file_path r)) = Some e \<longrightarrow>
      save_report os r doc
      = ([Log ERROR ''Cannot create file %s'' [S (report_file_path r)]], Inl e))
   \<and> (write_error os (report_file_path r) = Some e
        \<and> (path_exists os (report_file_path r) \<or> dirname (report_file_path r) = ''''
            \<or> path_exists os (dirname (report_file_path r))
            \<or> makedirs_error os (dirname (report_file_path r)) = None) \<longrightarrow>
      snd (save_report os r doc) = Inl e
      \<and> last (fst (save_report os r doc))
          = Log ERROR ''Cannot create file %s'' [S (report_file_path r)]
      \<and> Write_file (report_file_path r) doc \<notin> set (fst (save_report os r doc)))
   \<and> (snd (save_report os r doc) = Inl e \<longrightarrow>
      last (fst (save_report os r doc))
        = Log ERROR ''Cannot create file %s'' [S (report_file_path r)]
      \<and> (makedirs_error os (dirname (report_file_path r)) = Some e
          \<or> write_error os (report_file_path r) = Some e))"
  by (auto simp: save_report_def then_do_def skip_def os_makedirs_def write_document_def
      Let_def split: option.splits)

theorem save_report_outcomes_witness:
  "save_report existing_os out_reporter labelled_document
     = ([Log WARNING ''File %s already exists, will be overwritten'' [S ''out/xunit.xml''],
         Log INFO ''Writing JUnit XML report into: %s'' [S ''out/xunit.xml''],
         Write_file ''out/xunit.xml'' labelled_document], Inr ())
   \<and> save_report quiet_os out_reporter labelled_document
     = ([Makedirs ''out'',
         Log INFO ''Writing JUnit XML report into: %s'' [S ''out/xunit.xml''],
         Write_file ''out/xunit.xml'' labelled_document], Inr ())
   \<and> save_report no_mkdir_os out_reporter labelled_document
     = ([Log ERROR ''Cannot create file %s'' [S ''out/xunit.xml'']],
        Inl (OSError ''Permission denied''))
   \<and> snd (save_report no_write_os out_reporter labelled_document)
     = Inl (OSError ''Read-only file system'')
   \<and> last (fst (save_report no_write_os out_reporter labelled_document))
     = Log ERROR ''Cannot create file %s'' [S ''out/xunit.xml'']"
  using save_report_outcomes [of existing_os out_reporter labelled_document KeyError]
    save_report_outcomes [of quiet_os out_reporter labelled_document KeyError]
    save_report_outcomes [of no_mkdir_os out_reporter labelled_document
      "OSError ''Permission denied''"]
    save_report_outcomes [of no_write_os out_reporter labelled_document
      "OSError ''Read-only file system''"]
  by (simp add: existing_os_def quiet_os_def no_mkdir_os_def no_write_os_def out_reporter_def
      default_reporter_def dirname_out)


end
